theory Spec2Isabelle
  imports Complex_Main "HOL-Library.Sublist"
begin

section \<open>JavaScript strings\<close>

text \<open>
  A JavaScript string is modelled by the list of the bytes of its UTF-8 encoding
  (\<^typ>\<open>string\<close>); for text in the ASCII range these are its characters. The services
  only concatenate strings, lower-case them, search them for substrings and encode them
  in base64. \<open>toLowerCase\<close> maps the letters \<open>A\<close> to \<open>Z\<close> to \<open>a\<close> to \<open>z\<close> and leaves every
  other byte as it is; the case mapping of letters outside the ASCII range is not
  modelled.
\<close>

definition toLowerChar :: "char \<Rightarrow> char" where
  "toLowerChar c =
     (case map_of (zip ''ABCDEFGHIJKLMNOPQRSTUVWXYZ'' ''abcdefghijklmnopqrstuvwxyz'') c of
        Some l \<Rightarrow> l
      | None \<Rightarrow> c)"

definition toLowerCase :: "string \<Rightarrow> string" where
  "toLowerCase s = map toLowerChar s"

text \<open>\<open>s.startsWith(t)\<close> and \<open>s.includes(t)\<close>: \<open>t\<close> occurs in \<open>s\<close> at position 0, at some position.\<close>

fun startsWith :: "string \<Rightarrow> string \<Rightarrow> bool" where
  "startsWith s [] = True"
| "startsWith [] (c # t) = False"
| "startsWith (a # s) (c # t) = (a = c \<and> startsWith s t)"

fun js_includes :: "string \<Rightarrow> string \<Rightarrow> bool" where
  "js_includes [] t = (t = [])"
| "js_includes (a # s) t = (startsWith (a # s) t \<or> js_includes s t)"

text \<open>\<open>xs.join(sep)\<close> on an array of strings.\<close>

fun join :: "string \<Rightarrow> string list \<Rightarrow> string" where
  "join sep [] = []"
| "join sep [x] = x"
| "join sep (x # y # ys) = x @ sep @ join sep (y # ys)"

text \<open>\<open>s.replace(/##/g, '')\<close>: every match of \<open>##\<close>, found from left to right, is removed.\<close>

fun remove_hashes :: "string \<Rightarrow> string" where
  "remove_hashes (a # b # s) =
     (if a = CHR ''#'' \<and> b = CHR ''#'' then remove_hashes s else a # remove_hashes (b # s))"
| "remove_hashes s = s"

text \<open>
  \<open>Buffer.from(s).toString('base64')\<close>: the characters of the model are the bytes that
  \<open>Buffer.from\<close> produces; three bytes give four digits, and a last group of one or two
  bytes is padded with \<open>=\<close>.
\<close>

definition base64_digit :: "nat \<Rightarrow> char" where
  "base64_digit n =
     ''ABCDEFGHIJKLMNOPQRSTUVWXYZabcdefghijklmnopqrstuvwxyz0123456789+/'' ! (n mod 64)"

fun base64 :: "string \<Rightarrow> string" where
  "base64 (a # b # c # s) =
     (let n = of_char a * 65536 + of_char b * 256 + of_char c
      in base64_digit (n div 262144) # base64_digit (n div 4096) # base64_digit (n div 64)
           # base64_digit n # base64 s)"
| "base64 [a, b] =
     (let n = of_char a * 1024 + of_char b * 4
      in [base64_digit (n div 4096), base64_digit (n div 64), base64_digit n, CHR ''=''])"
| "base64 [a] =
     (let n = of_char a * 16
      in [base64_digit (n div 64), base64_digit n, CHR ''='', CHR ''=''])"
| "base64 [] = []"

text \<open>
  What the specification calls a case-insensitive substring match: some contiguous part
  of \<open>s\<close> equals \<open>t\<close> up to the case of its letters.
\<close>

definition contains_ignoring_case :: "string \<Rightarrow> string \<Rightarrow> bool" where
  "contains_ignoring_case s t = (\<exists>u. sublist u s \<and> toLowerCase u = toLowerCase t)"

section \<open>Dates\<close>

text \<open>
  A \<open>Date\<close> is its time value, the milliseconds since the epoch, an \<^typ>\<open>int\<close>. The
  server's local time is the time value shifted by a fixed offset \<open>tz\<close> (milliseconds);
  daylight-saving changes are not modelled. \<open>d.toISOString()\<close>, the \<open>timestamptz\<close> column
  and \<open>new Date(text)\<close> carry a time value unchanged, so an \<open>expires_at\<close> is kept as the
  time value itself.

  \<open>d.setHours(h)\<close> rebuilds the local time of \<open>d\<close> from its day, the hour \<open>h\<close> and its
  minutes, seconds and milliseconds. The standard's \<open>MakeTime\<close> first applies
  \<open>ToIntegerOrInfinity\<close> to the hour, which drops the fraction of the number towards 0.
\<close>

definition msPerHour :: int where
  "msPerHour = 3600000"

definition msPerDay :: int where
  "msPerDay = 24 * msPerHour"

definition ToIntegerOrInfinity :: "rat \<Rightarrow> int" where
  "ToIntegerOrInfinity x = (if 0 \<le> x then \<lfloor>x\<rfloor> else \<lceil>x\<rceil>)"

definition getHours :: "int \<Rightarrow> int \<Rightarrow> int" where
  "getHours tz t = ((t + tz) mod msPerDay) div msPerHour"

definition setHours :: "int \<Rightarrow> int \<Rightarrow> rat \<Rightarrow> int" where
  "setHours tz t hour =
     (let local = t + tz;
          day = local div msPerDay;
          within_hour = local mod msPerHour
      in day * msPerDay + ToIntegerOrInfinity hour * msPerHour + within_hour - tz)"

section \<open>Data\<close>

text \<open>A JavaScript number is a finite value or \<open>NaN\<close>; the services never compute with one.\<close>

datatype jsnumber = NaN | Num rat

record coordinates =
  lat :: jsnumber
  lng :: jsnumber

text \<open>
  A social-media report. \<open>timestamp\<close> is the time value that \<open>toISOString\<close> prints.
\<close>

record report =
  report_id :: string
  user :: string
  content :: string
  timestamp :: int
  priority :: string
  location :: string
  report_keywords :: "string list"

text \<open>
  What the services store in the cache and hand back to their callers: \<open>null\<close>, a
  geocoding result \<open>{ lat, lng }\<close>, an extraction result \<open>{ location }\<close>, or an array of
  reports. \<open>null\<close> is the only one of these that JavaScript takes for false.
\<close>

datatype payload =
    Null
  | GeocodeResult coordinates
  | LocationResult string
  | ReportList "report list"

fun truthy :: "payload \<Rightarrow> bool" where
  "truthy Null = False"
| "truthy _ = True"

section \<open>The cache table and CacheService\<close>

text \<open>
  The Supabase client is the table \<open>cache\<close> (primary key \<open>key\<close>, columns \<open>value\<close> and
  \<open>expires_at\<close>) together with the way the client currently answers: it works, it answers
  every query with \<open>{ error }\<close>, or its calls throw.
\<close>

datatype db_fault = Healthy | ReturnsError | Throws

record cache_row =
  cache_value :: payload
  expires_at :: int

record supabase =
  cache_table :: "string \<rightharpoonup> cache_row"
  fault :: db_fault

text \<open>
  \<open>delete(key)\<close>: the row is removed; a \<open>{ error }\<close> answer is ignored and a throw is
  caught and logged.
\<close>

definition CacheService_delete :: "supabase \<Rightarrow> string \<Rightarrow> supabase" where
  "CacheService_delete sb key =
     (case fault sb of
        Healthy \<Rightarrow> sb\<lparr>cache_table := (cache_table sb)(key := None)\<rparr>
      | ReturnsError \<Rightarrow> sb
      | Throws \<Rightarrow> sb)"

text \<open>
  \<open>get(key)\<close> at the time \<open>now\<close> read by \<open>new Date()\<close>. \<open>.single()\<close> answers with an
  error when no row has the key. The result is the client after the call and the value
  returned.
\<close>

definition CacheService_get :: "supabase \<Rightarrow> string \<Rightarrow> int \<Rightarrow> supabase \<times> payload" where
  "CacheService_get sb key now =
     (case fault sb of
        Throws \<Rightarrow> (sb, Null)
      | ReturnsError \<Rightarrow> (sb, Null)
      | Healthy \<Rightarrow>
          (case cache_table sb key of
             None \<Rightarrow> (sb, Null)
           | Some row \<Rightarrow>
               if now > expires_at row then (CacheService_delete sb key, Null)
               else (sb, cache_value row)))"

text \<open>
  \<open>set(key, value, ttlHours)\<close> at the time \<open>now\<close> read by \<open>new Date()\<close>, on a server whose
  local time is \<open>tz\<close> ahead of UTC.
\<close>

definition CacheService_set ::
  "int \<Rightarrow> supabase \<Rightarrow> string \<Rightarrow> payload \<Rightarrow> rat \<Rightarrow> int \<Rightarrow> supabase" where
  "CacheService_set tz sb key v ttlHours now =
     (let expiresAt = setHours tz now (of_int (getHours tz now) + ttlHours)
      in case fault sb of
           Healthy \<Rightarrow>
             sb\<lparr>cache_table := (cache_table sb)(key \<mapsto> \<lparr>cache_value = v, expires_at = expiresAt\<rparr>)\<rparr>
         | ReturnsError \<Rightarrow> sb
         | Throws \<Rightarrow> sb)"

section \<open>GeocodingService\<close>

text \<open>
  What the service finds around it. An HTTP call made with axios either throws or gives a
  response body. Of Google's body the model keeps \<open>results\<close> (absent, or the list of each
  candidate's \<open>geometry.location\<close>); of Nominatim's body, which may be empty, the list of
  places with their \<open>lat\<close> and \<open>lon\<close> texts; of the inference API's body the list of
  entities. A body of another shape makes the method throw inside its own \<open>try\<close> and counts
  as \<open>Threw\<close>.
\<close>

datatype 'a http = Threw | Response 'a

record nominatim_place =
  place_lat :: string
  place_lon :: string

record entity =
  entity_group :: string
  word :: string

record env =
  tz :: int
  googleApiKey :: "string option"
  google_api :: "string \<Rightarrow> coordinates list option http"
  nominatim_api :: "string \<Rightarrow> nominatim_place list option http"
  parseFloat :: "string \<Rightarrow> jsnumber"
  inference_api :: "string \<Rightarrow> entity list http"

text \<open>
  The state a request works on: the Supabase client and, in order, every invocation of
  one of the two geocoding providers.
\<close>

datatype provider_call = GoogleCall string | NominatimCall string

record world =
  db :: supabase
  calls :: "provider_call list"

definition geocodeWithGoogle :: "env \<Rightarrow> world \<Rightarrow> string \<Rightarrow> world \<times> coordinates option" where
  "geocodeWithGoogle e w locationName =
     (let w' = w\<lparr>calls := calls w @ [GoogleCall locationName]\<rparr>
      in case googleApiKey e of
           None \<Rightarrow> (w', None)
         | Some k \<Rightarrow>
             if k = [] \<or> k = ''your-google-maps-api-key'' then (w', None)
             else (case google_api e locationName of
                     Threw \<Rightarrow> (w', None)
                   | Response None \<Rightarrow> (w', None)
                   | Response (Some []) \<Rightarrow> (w', None)
                   | Response (Some (l # _)) \<Rightarrow> (w', Some \<lparr>lat = lat l, lng = lng l\<rparr>)))"

definition geocodeWithNominatim :: "env \<Rightarrow> world \<Rightarrow> string \<Rightarrow> world \<times> coordinates option" where
  "geocodeWithNominatim e w locationName =
     (let w' = w\<lparr>calls := calls w @ [NominatimCall locationName]\<rparr>
      in case nominatim_api e locationName of
           Threw \<Rightarrow> (w', None)
         | Response None \<Rightarrow> (w', None)
         | Response (Some []) \<Rightarrow> (w', None)
         | Response (Some (l # _)) \<Rightarrow>
             (w', Some \<lparr>lat = parseFloat e (place_lat l), lng = parseFloat e (place_lon l)\<rparr>))"

definition geocode_key :: "string \<Rightarrow> string" where
  "geocode_key locationName = ''geocode_'' @ base64 locationName"

text \<open>
  \<open>geocodeLocation(locationName)\<close>; \<open>t_get\<close> and \<open>t_set\<close> are the times that \<open>cache.get\<close>
  and \<open>cache.set\<close> read. Nothing inside the \<open>try\<close> throws in this model (both cache
  methods and both provider methods catch their own errors), so the \<open>catch\<close> branch has
  no counterpart.
\<close>

definition geocodeLocation :: "env \<Rightarrow> world \<Rightarrow> string \<Rightarrow> int \<Rightarrow> int \<Rightarrow> world \<times> payload" where
  "geocodeLocation e w locationName t_get t_set =
     (let cacheKey = geocode_key locationName;
          (sb1, cached) = CacheService_get (db w) cacheKey t_get;
          w1 = w\<lparr>db := sb1\<rparr>
      in if truthy cached then (w1, cached)
         else
           (let (w2, r1) = geocodeWithGoogle e w1 locationName;
                (w3, result) = (case r1 of
                                  None \<Rightarrow> geocodeWithNominatim e w2 locationName
                                | Some _ \<Rightarrow> (w2, r1))
            in case result of
                 None \<Rightarrow> (w3, Null)
               | Some c \<Rightarrow>
                   (w3\<lparr>db := CacheService_set (tz e) (db w3) cacheKey (GeocodeResult c) 1 t_set\<rparr>,
                    GeocodeResult c)))"

section \<open>GeminiService.extractLocation\<close>

definition extract_key :: "string \<Rightarrow> string" where
  "extract_key description = ''location_extract_'' @ base64 description"

definition extract_locations :: "entity list \<Rightarrow> string" where
  "extract_locations entities =
     remove_hashes
       (join '' ''
          (filter (\<lambda>w. w \<noteq> ''[CLS]'' \<and> w \<noteq> ''[SEP]'')
             (map word
                (filter (\<lambda>ent. entity_group ent = ''LOC'' \<or> entity_group ent = ''ORG''
                                \<or> entity_group ent = ''PER'' \<or> entity_group ent = ''MISC'')
                   entities))))"

definition extraction_failed :: string where
  "extraction_failed = ''Location extraction failed''"

definition extractLocation :: "env \<Rightarrow> world \<Rightarrow> string \<Rightarrow> int \<Rightarrow> int \<Rightarrow> world \<times> payload" where
  "extractLocation e w description t_get t_set =
     (let cacheKey = extract_key description;
          (sb1, cached) = CacheService_get (db w) cacheKey t_get;
          w1 = w\<lparr>db := sb1\<rparr>
      in if truthy cached then (w1, cached)
         else
           (case inference_api e description of
              Threw \<Rightarrow> (w1, LocationResult extraction_failed)
            | Response entities \<Rightarrow>
                (let locations = extract_locations entities;
                     result_data = LocationResult (if locations = [] then ''Unknown'' else locations)
                 in (w1\<lparr>db := CacheService_set (tz e) (db w1) cacheKey result_data 1 t_set\<rparr>,
                     result_data))))"

section \<open>POST /geocode\<close>

text \<open>
  The request body carries \<open>description\<close> and \<open>location_name\<close>, each a string or absent;
  an absent field and the empty string are what JavaScript takes for false.
\<close>

record geocode_body =
  description :: "string option"
  location_name :: "string option"

fun present :: "string option \<Rightarrow> bool" where
  "present None = False"
| "present (Some s) = (s \<noteq> [])"

record geocode_result =
  original_description :: "string option"
  extracted_location :: string
  coordinates_found :: payload
  result_timestamp :: int

text \<open>
  The answers of the route: 400, 422 with \<open>extracted_location\<close>, 422 with
  \<open>location_name\<close>, 200 with the result, and the 500 of the route's \<open>catch\<close>.
\<close>

datatype geocode_response =
    BadRequest
  | ExtractionFailed "string option"
  | GeocodeFailed string
  | GeocodeOk geocode_result
  | ServerError

text \<open>
  \<open>locationResult.location\<close>: the field of an extraction result, \<open>undefined\<close> on another
  object, a \<open>TypeError\<close> on \<open>null\<close>.
\<close>

fun location_field :: "payload \<Rightarrow> string option option" where
  "location_field Null = None"
| "location_field (LocationResult s) = Some (Some s)"
| "location_field _ = Some None"

text \<open>
  The part of the handler from the test of \<open>locationToGeocode\<close> on; \<open>t_get\<close> and \<open>t_set\<close>
  are the times of the geocoding cache accesses, \<open>t_done\<close> the time of the answer.
\<close>

definition geocode_resolved ::
  "env \<Rightarrow> world \<Rightarrow> geocode_body \<Rightarrow> string option \<Rightarrow> int \<Rightarrow> int \<Rightarrow> int \<Rightarrow> world \<times> geocode_response" where
  "geocode_resolved e w body locationToGeocode t_get t_set t_done =
     (case locationToGeocode of
        None \<Rightarrow> (w, ExtractionFailed None)
      | Some l \<Rightarrow>
          if l = [] \<or> l = ''Location extraction failed'' then (w, ExtractionFailed (Some l))
          else
            (let (w2, coordinates) = geocodeLocation e w l t_get t_set
             in if \<not> truthy coordinates then (w2, GeocodeFailed l)
                else (w2, GeocodeOk \<lparr>original_description = description body,
                                      extracted_location = l,
                                      coordinates_found = coordinates,
                                      result_timestamp = t_done\<rparr>)))"

text \<open>
  The handler; \<open>t1\<close> and \<open>t2\<close> are the times of the extraction's cache accesses.
\<close>

definition post_geocode ::
  "env \<Rightarrow> world \<Rightarrow> geocode_body \<Rightarrow> int \<Rightarrow> int \<Rightarrow> int \<Rightarrow> int \<Rightarrow> int \<Rightarrow> world \<times> geocode_response" where
  "post_geocode e w body t1 t2 t_get t_set t_done =
     (if \<not> present (description body) \<and> \<not> present (location_name body) then (w, BadRequest)
      else if \<not> present (location_name body) \<and> present (description body) then
        (case description body of
           None \<Rightarrow> (w, ServerError)
         | Some d \<Rightarrow>
             (let (w1, locationResult) = extractLocation e w d t1 t2
              in case location_field locationResult of
                   None \<Rightarrow> (w1, ServerError)
                 | Some locationToGeocode \<Rightarrow>
                     geocode_resolved e w1 body locationToGeocode t_get t_set t_done))
      else geocode_resolved e w body (location_name body) t_get t_set t_done)"

section \<open>SocialMediaService\<close>

definition social_media_key :: "string \<Rightarrow> string list \<Rightarrow> string" where
  "social_media_key disasterId tags = ''social_media_'' @ disasterId @ ''_'' @ join ''_'' tags"

text \<open>The mock data at the time \<open>now\<close> read by \<open>Date.now()\<close>.\<close>

definition mockData :: "int \<Rightarrow> report list" where
  "mockData now =
     [\<lparr>report_id = ''tweet_1'', user = ''citizen1'',
       content = ''#floodrelief Need food in Lower East Side NYC. Shelter is full, people waiting outside.'',
       timestamp = now - 2 * 60 * 60 * 1000, priority = ''high'',
       location = ''Lower East Side, NYC'',
       report_keywords = [''food'', ''shelter'', ''need'']\<rparr>,
      \<lparr>report_id = ''tweet_2'', user = ''helper_nyc'',
       content = ''Offering free transportation to evacuation centers from Manhattan. DM for pickup #disasterhelp'',
       timestamp = now - 1 * 60 * 60 * 1000, priority = ''medium'',
       location = ''Manhattan, NYC'',
       report_keywords = [''transportation'', ''evacuation'', ''help'']\<rparr>,
      \<lparr>report_id = ''tweet_3'', user = ''emergency_nyc'',
       content = ''URGENT: Water levels rising in Brooklyn. Residents in flood zones please evacuate immediately #emergency'',
       timestamp = now - 30 * 60 * 1000, priority = ''urgent'',
       location = ''Brooklyn, NYC'',
       report_keywords = [''urgent'', ''evacuation'', ''emergency'']\<rparr>,
      \<lparr>report_id = ''tweet_4'', user = ''medical_volunteer'',
       content = ''Medical team available at Central Park emergency station. First aid and basic supplies #medicalhelp'',
       timestamp = now - 45 * 60 * 1000, priority = ''medium'',
       location = ''Central Park, NYC'',
       report_keywords = [''medical'', ''first aid'', ''supplies'']\<rparr>]"

definition generateMockReports :: "int \<Rightarrow> string list \<Rightarrow> report list" where
  "generateMockReports now tags =
     (if length tags > 0 then
        filter (\<lambda>report.
                  list_ex (\<lambda>tag.
                    list_ex (\<lambda>keyword. js_includes (toLowerCase keyword) (toLowerCase tag))
                      (report_keywords report))
                    tags)
          (mockData now)
      else mockData now)"

text \<open>
  \<open>fetchSocialMediaReports(disasterId, tags)\<close>; \<open>t_get\<close>, \<open>t_gen\<close> and \<open>t_set\<close> are the
  times read by \<open>cache.get\<close>, by \<open>generateMockReports\<close> and by \<open>cache.set\<close>. Nothing
  inside the \<open>try\<close> throws in this model.
\<close>

definition fetchSocialMediaReports ::
  "int \<Rightarrow> supabase \<Rightarrow> string \<Rightarrow> string list \<Rightarrow> int \<Rightarrow> int \<Rightarrow> int \<Rightarrow> supabase \<times> payload" where
  "fetchSocialMediaReports zone sb disasterId tags t_get t_gen t_set =
     (let cacheKey = social_media_key disasterId tags;
          (sb1, cached) = CacheService_get sb cacheKey t_get
      in if truthy cached then (sb1, cached)
         else
           (let mockReports = generateMockReports t_gen tags
            in (CacheService_set zone sb1 cacheKey (ReportList mockReports) (1 / 2) t_set,
                ReportList mockReports)))"

definition urgentKeywords :: "string list" where
  "urgentKeywords = [''urgent'', ''sos'', ''emergency'', ''help'', ''trapped'', ''critical'']"

definition detectPriorityAlerts :: "report list \<Rightarrow> report list" where
  "detectPriorityAlerts reports =
     filter (\<lambda>report.
               list_ex (\<lambda>keyword. js_includes (toLowerCase (content report)) keyword) urgentKeywords)
       reports"

section \<open>Socket.IO rooms and the events the server emits\<close>

text \<open>
  The Socket.IO server is the list of its connected sockets, each with the set of rooms
  it has joined. A connection adds a socket, \<open>socket.join(room)\<close> adds a room to it and
  a disconnect removes the socket with its rooms. \<open>io.to(room).emit(...)\<close> delivers to
  the connected sockets that are in the room, \<open>io.emit(...)\<close> to every connected socket;
  both are modelled by the ids of the sockets the event is delivered to. The room that
  Socket.IO gives each socket under its own id is left out.
\<close>

record socket =
  socket_id :: string
  rooms :: "string set"

type_synonym io_server = "socket list"

definition io_to_emit :: "io_server \<Rightarrow> string \<Rightarrow> string list" where
  "io_to_emit io room = map socket_id (filter (\<lambda>s. room \<in> rooms s) io)"

definition io_emit :: "io_server \<Rightarrow> string list" where
  "io_emit io = map socket_id io"

text \<open>The handlers of \<open>connection\<close>, \<open>join_disaster\<close> and \<open>disconnect\<close>.\<close>

definition on_connection :: "io_server \<Rightarrow> string \<Rightarrow> io_server" where
  "on_connection io sid = io @ [\<lparr>socket_id = sid, rooms = {}\<rparr>]"

definition on_join_disaster :: "io_server \<Rightarrow> string \<Rightarrow> string \<Rightarrow> io_server" where
  "on_join_disaster io sid disasterId =
     map (\<lambda>s. if socket_id s = sid then s\<lparr>rooms := insert (''disaster_'' @ disasterId) (rooms s)\<rparr> else s) io"

definition on_disconnect :: "io_server \<Rightarrow> string \<Rightarrow> io_server" where
  "on_disconnect io sid = filter (\<lambda>s. socket_id s \<noteq> sid) io"

text \<open>
  The scoped emit of \<open>GET /disasters/:id/social-media\<close>, made when there are reports, and
  the global emit of the disaster routes.
\<close>

definition emit_social_media_updated :: "io_server \<Rightarrow> string \<Rightarrow> report list \<Rightarrow> string list" where
  "emit_social_media_updated io disasterId reports =
     (if length reports > 0 then io_to_emit io (''disaster_'' @ disasterId) else [])"

definition emit_disaster_updated :: "io_server \<Rightarrow> string list" where
  "emit_disaster_updated io = io_emit io"

text \<open>What clients do, in order, and the server these events leave behind.\<close>

datatype client_event = Connect string | JoinDisaster string string | Disconnect string

fun io_step :: "io_server \<Rightarrow> client_event \<Rightarrow> io_server" where
  "io_step io (Connect sid) = on_connection io sid"
| "io_step io (JoinDisaster sid disasterId) = on_join_disaster io sid disasterId"
| "io_step io (Disconnect sid) = on_disconnect io sid"

definition io_run :: "client_event list \<Rightarrow> io_server" where
  "io_run history = foldl io_step [] history"

text \<open>
  The membership relation as the specification describes it: the set of connected
  connections and the set of pairs of a connection and a disaster; a join adds a pair, a
  disconnect removes the connection and all its pairs.
\<close>

fun membership_step ::
  "string set \<times> (string \<times> string) set \<Rightarrow> client_event \<Rightarrow> string set \<times> (string \<times> string) set" where
  "membership_step (C, M) (Connect c) = (insert c C, M)"
| "membership_step (C, M) (JoinDisaster c d) = (C, if c \<in> C then insert (c, d) M else M)"
| "membership_step (C, M) (Disconnect c) = (C - {c}, {p \<in> M. fst p \<noteq> c})"

definition connected :: "client_event list \<Rightarrow> string set" where
  "connected history = fst (foldl membership_step ({}, {}) history)"

definition subscriptions :: "client_event list \<Rightarrow> (string \<times> string) set" where
  "subscriptions history = snd (foldl membership_step ({}, {}) history)"

text \<open>Who a server reaches: with a global event, and with an event scoped to each disaster.\<close>

definition disaster_room :: "string \<Rightarrow> string" where
  "disaster_room disasterId = ''disaster_'' @ disasterId"

definition fans :: "io_server \<Rightarrow> string set \<times> (string \<times> string) set" where
  "fans io = (set (io_emit io), {(c, d). c \<in> set (io_to_emit io (disaster_room d))})"

section \<open>Sample data\<close>

text \<open>Concrete clients, environments, requests and event histories for the examples below.\<close>

definition demo_row :: cache_row where
  "demo_row = \<lparr>cache_value = LocationResult ''Paris'', expires_at = 1000\<rparr>"

definition demo_db :: supabase where
  "demo_db = \<lparr>cache_table = [''k'' \<mapsto> demo_row], fault = Healthy\<rparr>"

definition offer_of_help :: report where
  "offer_of_help = \<lparr>report_id = ''t9'', user = ''neighbour'',
     content = ''Happy to HELP with transport'', timestamp = 0, priority = ''medium'',
     location = ''Queens, NYC'', report_keywords = [''transport'']\<rparr>"

definition empty_db :: supabase where
  "empty_db = \<lparr>cache_table = Map.empty, fault = Healthy\<rparr>"

definition first_fetch :: "supabase \<times> payload" where
  "first_fetch = fetchSocialMediaReports 0 empty_db ''d1'' [''food''] 1000 1000 1000"

definition paris_by_google :: coordinates where
  "paris_by_google = \<lparr>lat = Num (48856 / 1000), lng = Num (2352 / 1000)\<rparr>"

definition paris_by_nominatim :: coordinates where
  "paris_by_nominatim = \<lparr>lat = Num (4885 / 100), lng = Num (235 / 100)\<rparr>"

definition env_google_up :: env where
  "env_google_up =
     \<lparr>tz = 0,
      googleApiKey = Some ''test-key'',
      google_api = (\<lambda>q. if q = ''Paris'' then Response (Some [paris_by_google]) else Response (Some [])),
      nominatim_api = (\<lambda>q. if q = ''Paris''
                            then Response (Some [\<lparr>place_lat = ''48.85'', place_lon = ''2.35''\<rparr>])
                            else Response (Some [])),
      parseFloat = (\<lambda>s. if s = ''48.85'' then Num (4885 / 100)
                         else if s = ''2.35'' then Num (235 / 100) else NaN),
      inference_api = (\<lambda>d. Threw)\<rparr>"

definition env_google_down :: env where
  "env_google_down = env_google_up\<lparr>googleApiKey := None\<rparr>"

definition env_all_down :: env where
  "env_all_down = env_google_down\<lparr>nominatim_api := (\<lambda>q. Threw)\<rparr>"

definition world0 :: world where
  "world0 = \<lparr>db = empty_db, calls = []\<rparr>"

definition world_cached :: world where
  "world_cached =
     \<lparr>db = \<lparr>cache_table = [geocode_key ''Paris'' \<mapsto>
                  \<lparr>cache_value = GeocodeResult paris_by_nominatim, expires_at = 5000\<rparr>],
            fault = Healthy\<rparr>,
      calls = []\<rparr>"

definition flood_report :: geocode_body where
  "flood_report = \<lparr>description = Some ''Flooding reported this morning'', location_name = None\<rparr>"




definition scenario_C :: "client_event list" where
  "scenario_C = [Connect ''s1'', Connect ''s2'', Connect ''s3'',
                 JoinDisaster ''s1'' ''D1'', JoinDisaster ''s2'' ''D1'', JoinDisaster ''s3'' ''D2'']"


section \<open>Expiry of cache entries\<close>

text \<open>
  Claim C1, as the code has it. On a client that answers, \<open>get\<close> returns the stored value
  when a row for the key exists and the current time is at or before its \<open>expires_at\<close>
  and leaves the table alone; when the current time is after \<open>expires_at\<close> it returns
  \<open>null\<close> and deletes the row, so that the key has no row afterwards and a later \<open>get\<close>
  at any time returns \<open>null\<close>; without a row it returns \<open>null\<close>.
\<close>

theorem CacheService_get_expiry:
  assumes healthy: "fault sb = Healthy"
  shows "(\<forall>row. cache_table sb key = Some row \<longrightarrow> now \<le> expires_at row \<longrightarrow>
            CacheService_get sb key now = (sb, cache_value row))
       \<and> (\<forall>row. cache_table sb key = Some row \<longrightarrow> expires_at row < now \<longrightarrow>
            CacheService_get sb key now = (sb\<lparr>cache_table := (cache_table sb)(key := None)\<rparr>, Null)
          \<and> cache_table (fst (CacheService_get sb key now)) key = None
          \<and> (\<forall>now'. snd (CacheService_get (fst (CacheService_get sb key now)) key now') = Null))
       \<and> (cache_table sb key = None \<longrightarrow> CacheService_get sb key now = (sb, Null))"
  using healthy by (auto simp: CacheService_get_def CacheService_delete_def)

theorem CacheService_get_expiry_witness:
  "fault demo_db = Healthy \<and> cache_table demo_db ''k'' = Some demo_row
   \<and> CacheService_get demo_db ''k'' 1000 = (demo_db, LocationResult ''Paris'')
   \<and> snd (CacheService_get demo_db ''k'' 1001) = Null
   \<and> cache_table (fst (CacheService_get demo_db ''k'' 1001)) ''k'' = None"
proof -
  have h: "fault demo_db = Healthy" by (simp add: demo_db_def)
  have r: "cache_table demo_db ''k'' = Some demo_row" by (simp add: demo_db_def)
  have live: "(1000::int) \<le> expires_at demo_row" by (simp add: demo_row_def)
  have dead: "expires_at demo_row < (1001::int)" by (simp add: demo_row_def)
  from CacheService_get_expiry [OF h, of "''k''" 1000] r live
  have a: "CacheService_get demo_db ''k'' 1000 = (demo_db, cache_value demo_row)" by blast
  from CacheService_get_expiry [OF h, of "''k''" 1001] r dead
  have b: "CacheService_get demo_db ''k'' 1001
             = (demo_db\<lparr>cache_table := (cache_table demo_db)(''k'' := None)\<rparr>, Null)
         \<and> cache_table (fst (CacheService_get demo_db ''k'' 1001)) ''k'' = None" by blast
  from a b h r show ?thesis by (simp add: demo_row_def)
qed

text \<open>
  The claim as written puts the boundary one instant earlier: at the very time
  \<open>expires_at\<close> the entry is not strictly before its expiry, yet \<open>get\<close> returns its value
  and keeps the row.
\<close>

theorem CacheService_get_boundary_counterexample:
  "\<not> ((1000::int) < expires_at demo_row)
   \<and> snd (CacheService_get demo_db ''k'' 1000) = LocationResult ''Paris''
   \<and> cache_table (fst (CacheService_get demo_db ''k'' 1000)) ''k'' = Some demo_row"
  by (simp add: CacheService_get_def demo_db_def demo_row_def)

section \<open>The cache key of the social-media feed\<close>

lemma split_at_first:
  "c \<notin> set x \<Longrightarrow> c \<notin> set y \<Longrightarrow> x @ c # r = y @ c # s \<Longrightarrow> x = y \<and> r = s"
proof (induction x arbitrary: y)
  case Nil then show ?case by (cases y) auto
next
  case (Cons a x) then show ?case by (cases y) auto
qed

lemma join_Cons: "join [c] (x # xs) = (if xs = [] then x else x @ c # join [c] xs)"
  by (cases xs) simp_all

lemma join_inj:
  "\<forall>t \<in> set ts1. t \<noteq> [] \<and> c \<notin> set t \<Longrightarrow> \<forall>t \<in> set ts2. t \<noteq> [] \<and> c \<notin> set t \<Longrightarrow>
   join [c] ts1 = join [c] ts2 \<Longrightarrow> ts1 = ts2"
proof (induction ts1 arbitrary: ts2)
  case Nil
  show ?case
  proof (cases ts2)
    case Nil then show ?thesis by simp
  next
    case (Cons y ys)
    with Nil.prems have "y \<noteq> []" by simp
    with Nil.prems Cons show ?thesis by (simp add: join_Cons split: if_splits)
  qed
next
  case (Cons x xs)
  from Cons.prems have x: "x \<noteq> []" "c \<notin> set x" by simp_all
  show ?case
  proof (cases ts2)
    case Nil
    with Cons.prems x show ?thesis by (simp add: join_Cons split: if_splits)
  next
    case (Cons y ys)
    with Cons.prems have y: "y \<noteq> []" "c \<notin> set y" by simp_all
    from Cons.prems(3) Cons have eq: "join [c] (x # xs) = join [c] (y # ys)" by simp
    show ?thesis
    proof (cases "xs = []")
      case True
      show ?thesis
      proof (cases "ys = []")
        case True with \<open>xs = []\<close> eq Cons show ?thesis by (simp add: join_Cons)
      next
        case False
        with True eq have "x = y @ c # join [c] ys" by (simp add: join_Cons)
        then have "c \<in> set x" by simp
        with x show ?thesis by simp
      qed
    next
      case False
      show ?thesis
      proof (cases "ys = []")
        case True
        with False eq have "y = x @ c # join [c] xs" by (simp add: join_Cons)
        then have "c \<in> set y" by simp
        with y show ?thesis by simp
      next
        case ys: False
        with False eq have "x @ c # join [c] xs = y @ c # join [c] ys" by (simp add: join_Cons)
        from split_at_first [OF x(2) y(2) this]
        have "x = y" and j: "join [c] xs = join [c] ys" by simp_all
        from Cons.prems \<open>ts2 = y # ys\<close> have "\<forall>t \<in> set xs. t \<noteq> [] \<and> c \<notin> set t"
          and "\<forall>t \<in> set ys. t \<noteq> [] \<and> c \<notin> set t" by simp_all
        from Cons.IH [OF this j] have "xs = ys" .
        with \<open>x = y\<close> \<open>ts2 = y # ys\<close> show ?thesis by simp
      qed
    qed
  qed
qed

text \<open>
  Claim C2, as the code has it. The key is \<open>social_media_\<close>, the disaster id, \<open>_\<close> and the
  tags joined by \<open>_\<close> in the order given, duplicates included; nothing sorts or
  de-duplicates the tags. The same disaster id and the same tag list give the same key,
  and when neither the disaster ids nor the tags contain \<open>_\<close> and no tag is empty, equal
  keys come only from equal disaster ids and equal tag lists.
\<close>

theorem social_media_key_injective:
  assumes "CHR ''_'' \<notin> set d1" and "CHR ''_'' \<notin> set d2"
    and "\<forall>t \<in> set ts1. t \<noteq> [] \<and> CHR ''_'' \<notin> set t"
    and "\<forall>t \<in> set ts2. t \<noteq> [] \<and> CHR ''_'' \<notin> set t"
  shows "social_media_key d1 ts1 = social_media_key d2 ts2 \<longleftrightarrow> d1 = d2 \<and> ts1 = ts2"
proof
  assume "social_media_key d1 ts1 = social_media_key d2 ts2"
  then have "d1 @ CHR ''_'' # join ''_'' ts1 = d2 @ CHR ''_'' # join ''_'' ts2"
    by (simp add: social_media_key_def)
  from split_at_first [OF assms(1,2) this]
  have d: "d1 = d2" and j: "join ''_'' ts1 = join ''_'' ts2" by simp_all
  from join_inj [OF assms(3,4) j] d show "d1 = d2 \<and> ts1 = ts2" by simp
next
  assume "d1 = d2 \<and> ts1 = ts2"
  then show "social_media_key d1 ts1 = social_media_key d2 ts2" by simp
qed


theorem social_media_key_injective_witness:
  "CHR ''_'' \<notin> set ''d1'' \<and> CHR ''_'' \<notin> set ''d2''
   \<and> CHR ''_'' \<notin> set ''flood'' \<and> CHR ''_'' \<notin> set ''food''
   \<and> social_media_key ''d1'' [''flood'', ''food''] \<noteq> social_media_key ''d2'' [''food'', ''flood'']
   \<and> social_media_key ''d1'' [''flood'', ''food''] = ''social_media_d1_flood_food''"
proof -
  have a: "CHR ''_'' \<notin> set ''d1''" by simp
  have b: "CHR ''_'' \<notin> set ''d2''" by simp
  have f: "CHR ''_'' \<notin> set ''flood''" by simp
  have g: "CHR ''_'' \<notin> set ''food''" by simp
  have c: "\<forall>t \<in> set [''flood'', ''food'']. t \<noteq> [] \<and> CHR ''_'' \<notin> set t" by simp
  have d: "\<forall>t \<in> set [''food'', ''flood'']. t \<noteq> [] \<and> CHR ''_'' \<notin> set t" by simp
  have e: "\<not> (''d1'' = ''d2'' \<and> [''flood'', ''food''] = [''food'', ''flood''])" by simp
  have k: "social_media_key ''d1'' [''flood'', ''food''] \<noteq> social_media_key ''d2'' [''food'', ''flood'']"
    unfolding social_media_key_injective [OF a b c d] by (rule e)
  have v: "social_media_key ''d1'' [''flood'', ''food''] = ''social_media_d1_flood_food''"
    by (simp add: social_media_key_def)
  show ?thesis by (intro conjI a b f g k v)
qed

text \<open>
  The claim as written fails both ways: two tag lists that differ only in order get
  different keys, and two queries with different tag sets share a key when a tag
  contains the separator.
\<close>

theorem social_media_key_counterexample:
  "[''food'', ''flood''] = rev [''flood'', ''food'']
   \<and> social_media_key ''d1'' [''flood'', ''food''] \<noteq> social_media_key ''d1'' [''food'', ''flood'']
   \<and> set [''a_b''] \<noteq> set [''a'', ''b'']
   \<and> social_media_key ''d1'' [''a_b''] = social_media_key ''d1'' [''a'', ''b'']"
proof (intro conjI)
  show "[''food'', ''flood''] = rev [''flood'', ''food'']" by simp
  show "social_media_key ''d1'' [''flood'', ''food''] \<noteq> social_media_key ''d1'' [''food'', ''flood'']"
    by (simp add: social_media_key_def)
  have "''a_b'' \<in> set [''a_b'']" by simp
  moreover have "''a_b'' \<notin> set [''a'', ''b'']" by simp
  ultimately show "set [''a_b''] \<noteq> set [''a'', ''b'']" by metis
  show "social_media_key ''d1'' [''a_b''] = social_media_key ''d1'' [''a'', ''b'']"
    by (simp add: social_media_key_def)
qed

section \<open>Tag filter and priority alerts\<close>

lemma startsWith_prefix: "startsWith s t \<longleftrightarrow> prefix t s"
  by (induction s t rule: startsWith.induct) auto

lemma js_includes_sublist: "js_includes s t \<longleftrightarrow> sublist t s"
  by (induction s) (auto simp: startsWith_prefix sublist_Cons_right)

lemma map_eq_appendD:
  "map f xs = ys @ zs \<Longrightarrow> \<exists>us vs. xs = us @ vs \<and> ys = map f us \<and> zs = map f vs"
  by (simp add: map_eq_append_conv)

lemma sublist_map_lower:
  "sublist (toLowerCase t) (toLowerCase s) \<longleftrightarrow> contains_ignoring_case s t"
proof
  assume "sublist (toLowerCase t) (toLowerCase s)"
  then obtain ps ss where "map toLowerChar s = ps @ (map toLowerChar t @ ss)"
    unfolding sublist_def toLowerCase_def by blast
  from map_eq_appendD [OF this]
  obtain a r where s: "s = a @ r" and "map toLowerChar r = map toLowerChar t @ ss"
    by metis
  from map_eq_appendD [OF this(2)]
  obtain u b where r: "r = u @ b" and u: "map toLowerChar u = map toLowerChar t"
    by metis
  from s r have "sublist u s" unfolding sublist_def by blast
  with u show "contains_ignoring_case s t"
    unfolding contains_ignoring_case_def toLowerCase_def by blast
next
  assume "contains_ignoring_case s t"
  then obtain u where "sublist u s" and u: "toLowerCase u = toLowerCase t"
    unfolding contains_ignoring_case_def by blast
  then obtain ps ss where "s = ps @ u @ ss" unfolding sublist_def by blast
  then have "map toLowerChar s = map toLowerChar ps @ map toLowerChar u @ map toLowerChar ss"
    by simp
  then have "sublist (map toLowerChar u) (map toLowerChar s)"
    unfolding sublist_def by blast
  with u show "sublist (toLowerCase t) (toLowerCase s)"
    by (simp add: toLowerCase_def)
qed
lemma includes_lower:
  "js_includes (toLowerCase s) (toLowerCase t) \<longleftrightarrow> contains_ignoring_case s t"
  by (simp add: js_includes_sublist sublist_map_lower)

text \<open>
  Claim C7. With a non-empty tag list the feed is the mock data, in order, restricted to
  the reports one of whose keywords contains one of the tags as a substring, letter case
  ignored; with an empty tag list it is all of the mock data.
\<close>

theorem generateMockReports_filter:
  "(tags \<noteq> [] \<longrightarrow>
      generateMockReports now tags =
        filter (\<lambda>r. \<exists>kw \<in> set (report_keywords r). \<exists>tag \<in> set tags. contains_ignoring_case kw tag)
          (mockData now))
   \<and> generateMockReports now [] = mockData now"
proof -
  have "list_ex (\<lambda>tag. list_ex (\<lambda>keyword. js_includes (toLowerCase keyword) (toLowerCase tag))
                   (report_keywords r)) tags
        \<longleftrightarrow> (\<exists>kw \<in> set (report_keywords r). \<exists>tag \<in> set tags. contains_ignoring_case kw tag)"
    for r :: report
    unfolding list_ex_iff includes_lower by blast
  then show ?thesis
    by (simp add: generateMockReports_def)
qed


theorem generateMockReports_filter_witness:
  "[''foo''] \<noteq> [] \<and> map report_id (generateMockReports 0 [''foo'']) = [''tweet_1'']
   \<and> map report_id (generateMockReports 0 [''medical'']) = [''tweet_4'']"
proof -
  have a: "map report_id (generateMockReports 0 [''foo'']) = [''tweet_1'']"
    by (simp add: generateMockReports_def mockData_def toLowerCase_def toLowerChar_def)
  have b: "map report_id (generateMockReports 0 [''medical'']) = [''tweet_4'']"
    by (simp add: generateMockReports_def mockData_def toLowerCase_def toLowerChar_def)
  from generateMockReports_filter [of "[''foo'']" 0] a b show ?thesis by simp
qed

lemma lower_help: "toLowerCase ''help'' = ''help''"
  by (simp add: toLowerCase_def toLowerChar_def)

text \<open>
  Claim C10. The urgency keywords are \<open>urgent\<close>, \<open>sos\<close>, \<open>emergency\<close>, \<open>help\<close>, \<open>trapped\<close>
  and \<open>critical\<close>; every report whose content contains \<open>help\<close>, letter case ignored, is in
  the output of \<open>detectPriorityAlerts\<close>, and the output is a subsequence of the input.
\<close>

theorem detectPriorityAlerts_help:
  "urgentKeywords = [''urgent'', ''sos'', ''emergency'', ''help'', ''trapped'', ''critical'']
   \<and> (\<forall>r \<in> set reports. contains_ignoring_case (content r) ''help'' \<longrightarrow>
          r \<in> set (detectPriorityAlerts reports))
   \<and> subseq (detectPriorityAlerts reports) reports"
proof (intro conjI ballI impI)
  show "urgentKeywords = [''urgent'', ''sos'', ''emergency'', ''help'', ''trapped'', ''critical'']"
    by (simp add: urgentKeywords_def)
next
  fix r assume r: "r \<in> set reports" and c: "contains_ignoring_case (content r) ''help''"
  from c have "js_includes (toLowerCase (content r)) ''help''"
    using includes_lower [of "content r" "''help''"] by (simp add: lower_help)
  then have "list_ex (\<lambda>keyword. js_includes (toLowerCase (content r)) keyword) urgentKeywords"
    by (simp add: urgentKeywords_def)
  with r show "r \<in> set (detectPriorityAlerts reports)"
    by (simp add: detectPriorityAlerts_def)
next
  show "subseq (detectPriorityAlerts reports) reports"
    by (simp add: detectPriorityAlerts_def)
qed

theorem detectPriorityAlerts_help_witness:
  "offer_of_help \<in> set [offer_of_help] \<and> contains_ignoring_case (content offer_of_help) ''help''
   \<and> offer_of_help \<in> set (detectPriorityAlerts [offer_of_help])"
proof -
  have "sublist ''HELP'' (content offer_of_help)"
    unfolding sublist_def
    by (rule exI [of _ "''Happy to ''"], rule exI [of _ "'' with transport''"])
       (simp add: offer_of_help_def)
  moreover have "toLowerCase ''HELP'' = toLowerCase ''help''"
    by (simp add: toLowerCase_def toLowerChar_def)
  ultimately have c: "contains_ignoring_case (content offer_of_help) ''help''"
    unfolding contains_ignoring_case_def by blast
  have m: "offer_of_help \<in> set [offer_of_help]" by simp
  from detectPriorityAlerts_help [of "[offer_of_help]"] m c
  have "offer_of_help \<in> set (detectPriorityAlerts [offer_of_help])" by blast
  with m c show ?thesis by blast
qed

section \<open>Time to live\<close>

lemma hour_parts: "(l div msPerDay) * msPerDay + ((l mod msPerDay) div msPerHour) * msPerHour + l mod msPerHour = l"
proof -
  have "l mod msPerHour = (l mod msPerDay) mod msPerHour"
    by (simp add: msPerDay_def mod_mod_cancel)
  then have "((l mod msPerDay) div msPerHour) * msPerHour + l mod msPerHour = l mod msPerDay"
    by simp
  then show ?thesis by (simp add: add.assoc)
qed

lemma getHours_nonneg: "0 \<le> getHours z t"
  by (simp add: getHours_def msPerDay_def msPerHour_def pos_imp_zdiv_nonneg_iff)

lemma setHours_ttl:
  assumes "0 \<le> ttl"
  shows "setHours z t (of_int (getHours z t) + ttl) = t + \<lfloor>ttl\<rfloor> * msPerHour"
proof -
  have "0 \<le> (of_int (getHours z t) :: rat) + ttl"
    using assms getHours_nonneg [of z t] by simp
  then have "ToIntegerOrInfinity (of_int (getHours z t) + ttl) = getHours z t + \<lfloor>ttl\<rfloor>"
    by (simp add: ToIntegerOrInfinity_def)
  then show ?thesis
    using hour_parts [of "t + z"]
    by (simp add: setHours_def Let_def getHours_def algebra_simps)
qed

lemma floor_half: "\<lfloor>1 / 2 :: rat\<rfloor> = 0"
  by (simp add: floor_eq_iff)

lemma set_half_hour:
  "fault sb = Healthy \<Longrightarrow>
   CacheService_set z sb key v (1 / 2) now
     = sb\<lparr>cache_table := (cache_table sb)(key \<mapsto> \<lparr>cache_value = v, expires_at = now\<rparr>)\<rparr>"
  using setHours_ttl [of "1 / 2" z now]
  by (simp add: CacheService_set_def floor_half)


lemma get_fault: "fault (fst (CacheService_get sb key now)) = fault sb"
  by (simp add: CacheService_get_def CacheService_delete_def split: db_fault.splits option.splits)

text \<open>
  Claim C3 promises that the feed written by \<open>fetchSocialMediaReports\<close> stays in the cache
  for 30 minutes. The code does not keep it: \<open>setHours\<close> drops the fraction of
  \<open>getHours() + 0.5\<close>, so the row is written with an \<open>expires_at\<close> equal to the time of
  the write, and a second call with the same arguments at any later time finds the row
  expired and computes the feed again.
\<close>

theorem fetchSocialMediaReports_expires_at_write:
  assumes healthy: "fault sb = Healthy"
    and miss: "snd (CacheService_get sb (social_media_key d tags) t_get) = Null"
    and later: "t_set < t_get'"
  shows "snd (fetchSocialMediaReports zone sb d tags t_get t_gen t_set)
           = ReportList (generateMockReports t_gen tags)
       \<and> cache_table (fst (fetchSocialMediaReports zone sb d tags t_get t_gen t_set))
             (social_media_key d tags)
           = Some \<lparr>cache_value = ReportList (generateMockReports t_gen tags), expires_at = t_set\<rparr>
       \<and> snd (fetchSocialMediaReports zone
                 (fst (fetchSocialMediaReports zone sb d tags t_get t_gen t_set))
                 d tags t_get' t_gen' t_set')
           = ReportList (generateMockReports t_gen' tags)"
proof -
  let ?k = "social_media_key d tags"
  obtain sb1 where g: "CacheService_get sb ?k t_get = (sb1, Null)"
    using miss by (cases "CacheService_get sb ?k t_get") simp
  have h1: "fault sb1 = Healthy" using get_fault [of sb ?k t_get] g healthy by simp
  let ?v = "ReportList (generateMockReports t_gen tags)"
  let ?sb2 = "sb1\<lparr>cache_table := (cache_table sb1)(?k \<mapsto> \<lparr>cache_value = ?v, expires_at = t_set\<rparr>)\<rparr>"
  have first: "fetchSocialMediaReports zone sb d tags t_get t_gen t_set = (?sb2, ?v)"
    using g by (simp add: fetchSocialMediaReports_def Let_def set_half_hour [OF h1])
  have g2: "CacheService_get ?sb2 ?k t_get' = (CacheService_delete ?sb2 ?k, Null)"
    using h1 later by (simp add: CacheService_get_def)
  have second: "snd (fetchSocialMediaReports zone ?sb2 d tags t_get' t_gen' t_set')
                  = ReportList (generateMockReports t_gen' tags)"
    using g2 by (simp add: fetchSocialMediaReports_def Let_def)
  show ?thesis using first second by simp
qed

theorem fetchSocialMediaReports_expires_at_write_witness:
  "fault empty_db = Healthy
   \<and> snd (CacheService_get empty_db (social_media_key ''d1'' [''food'']) 1000) = Null
   \<and> (1000 :: int) < 61000 \<and> (61000 :: int) < 1000 + 30 * 60 * 1000
   \<and> map_option expires_at (cache_table (fst first_fetch) (social_media_key ''d1'' [''food''])) = Some 1000
   \<and> map timestamp (generateMockReports 1000 [''food'']) = [1000 - 7200000]
   \<and> snd first_fetch = ReportList (generateMockReports 1000 [''food''])
   \<and> snd (fetchSocialMediaReports 0 (fst first_fetch) ''d1'' [''food''] 61000 61000 61000)
        = ReportList (generateMockReports 61000 [''food''])
   \<and> map timestamp (generateMockReports 61000 [''food'']) = [61000 - 7200000]"
proof -
  have h: "fault empty_db = Healthy" by (simp add: empty_db_def)
  have m: "snd (CacheService_get empty_db (social_media_key ''d1'' [''food'']) 1000) = Null"
    by (simp add: empty_db_def CacheService_get_def)
  have l: "(1000 :: int) < 61000" by simp
  have l2: "(61000 :: int) < 1000 + 30 * 60 * 1000" by simp
  have t1: "map timestamp (generateMockReports 1000 [''food'']) = [1000 - 7200000]"
    by (simp add: generateMockReports_def mockData_def toLowerCase_def toLowerChar_def)
  have t2: "map timestamp (generateMockReports 61000 [''food'']) = [61000 - 7200000]"
    by (simp add: generateMockReports_def mockData_def toLowerCase_def toLowerChar_def)
  note w = fetchSocialMediaReports_expires_at_write
    [where zone = 0 and t_gen = 1000 and t_gen' = 61000 and t_set' = 61000, OF h m l,
     folded first_fetch_def]
  from w have e: "map_option expires_at (cache_table (fst first_fetch) (social_media_key ''d1'' [''food''])) = Some 1000"
    by simp
  from w have f: "snd first_fetch = ReportList (generateMockReports 1000 [''food''])" by simp
  from w have s: "snd (fetchSocialMediaReports 0 (fst first_fetch) ''d1'' [''food''] 61000 61000 61000)
        = ReportList (generateMockReports 61000 [''food''])" by simp
  show ?thesis by (intro conjI h m l l2 e t1 f s t2)
qed

section \<open>The geocoding provider chain\<close>

lemma geocodeWithGoogle_world:
  "fst (geocodeWithGoogle e w n) = w\<lparr>calls := calls w @ [GoogleCall n]\<rparr>"
  by (simp add: geocodeWithGoogle_def Let_def split: option.splits http.splits list.splits)

lemma geocodeWithGoogle_answer:
  "snd (geocodeWithGoogle e w n) = snd (geocodeWithGoogle e w' n)"
  by (simp add: geocodeWithGoogle_def Let_def split: option.splits http.splits list.splits)

lemma geocodeWithNominatim_world:
  "fst (geocodeWithNominatim e w n) = w\<lparr>calls := calls w @ [NominatimCall n]\<rparr>"
  by (simp add: geocodeWithNominatim_def Let_def split: option.splits http.splits list.splits)

lemma geocodeWithNominatim_answer:
  "snd (geocodeWithNominatim e w n) = snd (geocodeWithNominatim e w' n)"
  by (simp add: geocodeWithNominatim_def Let_def split: option.splits http.splits list.splits)

lemma geocodeLocation_hit:
  assumes "truthy (snd (CacheService_get (db w) (geocode_key n) t_get))"
  shows "geocodeLocation e w n t_get t_set
           = (w\<lparr>db := fst (CacheService_get (db w) (geocode_key n) t_get)\<rparr>,
              snd (CacheService_get (db w) (geocode_key n) t_get))"
proof -
  obtain sb1 v where g: "CacheService_get (db w) (geocode_key n) t_get = (sb1, v)"
    by (cases "CacheService_get (db w) (geocode_key n) t_get")
  with assms have "truthy v" by simp
  with g show ?thesis by (simp add: geocodeLocation_def Let_def)
qed

lemma geocodeLocation_google:
  assumes "\<not> truthy (snd (CacheService_get (db w) (geocode_key n) t_get))"
    and "snd (geocodeWithGoogle e w n) = Some c"
  shows "geocodeLocation e w n t_get t_set
           = (w\<lparr>db := CacheService_set (tz e) (fst (CacheService_get (db w) (geocode_key n) t_get))
                         (geocode_key n) (GeocodeResult c) 1 t_set,
                 calls := calls w @ [GoogleCall n]\<rparr>,
              GeocodeResult c)"
proof -
  obtain sb1 v where g: "CacheService_get (db w) (geocode_key n) t_get = (sb1, v)"
    by (cases "CacheService_get (db w) (geocode_key n) t_get")
  with assms(1) have v: "\<not> truthy v" by simp
  let ?w1 = "w\<lparr>db := sb1\<rparr>"
  have a: "snd (geocodeWithGoogle e ?w1 n) = Some c"
    using assms(2) geocodeWithGoogle_answer [of e ?w1 n w] by simp
  have "geocodeWithGoogle e ?w1 n = (?w1\<lparr>calls := calls ?w1 @ [GoogleCall n]\<rparr>, Some c)"
    using a geocodeWithGoogle_world [of e ?w1 n] by (simp add: prod_eq_iff)
  then show ?thesis using g v
    by (simp add: geocodeLocation_def Let_def)
qed

lemma geocodeLocation_nominatim:
  assumes "\<not> truthy (snd (CacheService_get (db w) (geocode_key n) t_get))"
    and "snd (geocodeWithGoogle e w n) = None"
    and "snd (geocodeWithNominatim e w n) = Some c"
  shows "geocodeLocation e w n t_get t_set
           = (w\<lparr>db := CacheService_set (tz e) (fst (CacheService_get (db w) (geocode_key n) t_get))
                         (geocode_key n) (GeocodeResult c) 1 t_set,
                 calls := calls w @ [GoogleCall n, NominatimCall n]\<rparr>,
              GeocodeResult c)"
proof -
  obtain sb1 v where g: "CacheService_get (db w) (geocode_key n) t_get = (sb1, v)"
    by (cases "CacheService_get (db w) (geocode_key n) t_get")
  with assms(1) have v: "\<not> truthy v" by simp
  let ?w1 = "w\<lparr>db := sb1\<rparr>"
  let ?w2 = "?w1\<lparr>calls := calls ?w1 @ [GoogleCall n]\<rparr>"
  have a: "snd (geocodeWithGoogle e ?w1 n) = None"
    using assms(2) geocodeWithGoogle_answer [of e ?w1 n w] by simp
  have a': "geocodeWithGoogle e ?w1 n = (?w2, None)"
    using a geocodeWithGoogle_world [of e ?w1 n] by (simp add: prod_eq_iff)
  have b: "snd (geocodeWithNominatim e ?w2 n) = Some c"
    using assms(3) geocodeWithNominatim_answer [of e ?w2 n w] by simp
  have b': "geocodeWithNominatim e ?w2 n = (?w2\<lparr>calls := calls ?w2 @ [NominatimCall n]\<rparr>, Some c)"
    using b geocodeWithNominatim_world [of e ?w2 n] by (simp add: prod_eq_iff)
  show ?thesis using g v a' b'
    by (simp add: geocodeLocation_def Let_def)
qed

lemma geocodeLocation_failed:
  assumes "\<not> truthy (snd (CacheService_get (db w) (geocode_key n) t_get))"
    and "snd (geocodeWithGoogle e w n) = None"
    and "snd (geocodeWithNominatim e w n) = None"
  shows "geocodeLocation e w n t_get t_set
           = (w\<lparr>db := fst (CacheService_get (db w) (geocode_key n) t_get),
                 calls := calls w @ [GoogleCall n, NominatimCall n]\<rparr>,
              Null)"
proof -
  obtain sb1 v where g: "CacheService_get (db w) (geocode_key n) t_get = (sb1, v)"
    by (cases "CacheService_get (db w) (geocode_key n) t_get")
  with assms(1) have v: "\<not> truthy v" by simp
  let ?w1 = "w\<lparr>db := sb1\<rparr>"
  let ?w2 = "?w1\<lparr>calls := calls ?w1 @ [GoogleCall n]\<rparr>"
  have a: "snd (geocodeWithGoogle e ?w1 n) = None"
    using assms(2) geocodeWithGoogle_answer [of e ?w1 n w] by simp
  have a': "geocodeWithGoogle e ?w1 n = (?w2, None)"
    using a geocodeWithGoogle_world [of e ?w1 n] by (simp add: prod_eq_iff)
  have b: "snd (geocodeWithNominatim e ?w2 n) = None"
    using assms(3) geocodeWithNominatim_answer [of e ?w2 n w] by simp
  have b': "geocodeWithNominatim e ?w2 n = (?w2\<lparr>calls := calls ?w2 @ [NominatimCall n]\<rparr>, None)"
    using b geocodeWithNominatim_world [of e ?w2 n] by (simp add: prod_eq_iff)
  show ?thesis using g v a' b'
    by (simp add: geocodeLocation_def Let_def)
qed

lemma google_up_Paris: "snd (geocodeWithGoogle env_google_up w ''Paris'') = Some paris_by_google"
  by (simp add: geocodeWithGoogle_def env_google_up_def Let_def paris_by_google_def)

lemma google_down_Paris: "snd (geocodeWithGoogle env_google_down w ''Paris'') = None"
  by (simp add: geocodeWithGoogle_def env_google_down_def env_google_up_def Let_def)

lemma nominatim_Paris: "snd (geocodeWithNominatim env_google_down w ''Paris'') = Some paris_by_nominatim"
  by (simp add: geocodeWithNominatim_def env_google_down_def env_google_up_def Let_def paris_by_nominatim_def)

lemma all_down_google: "snd (geocodeWithGoogle env_all_down w ''Paris'') = None"
  by (simp add: geocodeWithGoogle_def env_all_down_def env_google_down_def env_google_up_def Let_def)

lemma all_down_nominatim: "snd (geocodeWithNominatim env_all_down w ''Paris'') = None"
  by (simp add: geocodeWithNominatim_def env_all_down_def env_google_down_def env_google_up_def Let_def)

lemma world0_miss: "snd (CacheService_get (db world0) k t) = Null"
  by (simp add: world0_def empty_db_def CacheService_get_def)

text \<open>
  Claim C4, as the code has it. \<open>geocodeLocation\<close> looks in the cache first: a live entry
  is returned as it is and no provider is invoked. Without one, the chain short-circuits:
  when Google yields a result, that result is returned and Google is the only provider
  invoked; when Google yields none and Nominatim yields one, the result is Nominatim's.
\<close>

theorem geocodeLocation_fallback:
  "(truthy (snd (CacheService_get (db w) (geocode_key n) t_get)) \<longrightarrow>
      snd (geocodeLocation e w n t_get t_set) = snd (CacheService_get (db w) (geocode_key n) t_get)
      \<and> calls (fst (geocodeLocation e w n t_get t_set)) = calls w)
   \<and> (\<not> truthy (snd (CacheService_get (db w) (geocode_key n) t_get)) \<longrightarrow>
        (\<forall>c. snd (geocodeWithGoogle e w n) = Some c \<longrightarrow>
           snd (geocodeLocation e w n t_get t_set) = GeocodeResult c
           \<and> calls (fst (geocodeLocation e w n t_get t_set)) = calls w @ [GoogleCall n])
      \<and> (\<forall>c. snd (geocodeWithGoogle e w n) = None \<longrightarrow> snd (geocodeWithNominatim e w n) = Some c \<longrightarrow>
           snd (geocodeLocation e w n t_get t_set) = GeocodeResult c
           \<and> calls (fst (geocodeLocation e w n t_get t_set))
               = calls w @ [GoogleCall n, NominatimCall n]))"
  by (simp add: geocodeLocation_hit geocodeLocation_google geocodeLocation_nominatim)

theorem geocodeLocation_fallback_witness:
  "snd (geocodeLocation env_google_up world0 ''Paris'' 1000 2000) = GeocodeResult paris_by_google
   \<and> calls (fst (geocodeLocation env_google_up world0 ''Paris'' 1000 2000)) = [GoogleCall ''Paris'']
   \<and> snd (geocodeLocation env_google_down world0 ''Paris'' 1000 2000) = GeocodeResult paris_by_nominatim
   \<and> calls (fst (geocodeLocation env_google_down world0 ''Paris'' 1000 2000))
        = [GoogleCall ''Paris'', NominatimCall ''Paris'']
   \<and> snd (geocodeLocation env_google_up world_cached ''Paris'' 1000 2000) = GeocodeResult paris_by_nominatim
   \<and> calls (fst (geocodeLocation env_google_up world_cached ''Paris'' 1000 2000)) = []"
proof -
  have m: "\<not> truthy (snd (CacheService_get (db world0) (geocode_key ''Paris'') 1000))"
    by (simp add: world0_miss)
  have c0: "calls world0 = []" by (simp add: world0_def)
  have h: "snd (CacheService_get (db world_cached) (geocode_key ''Paris'') 1000)
             = GeocodeResult paris_by_nominatim"
    by (simp add: world_cached_def CacheService_get_def)
  have c1: "calls world_cached = []" by (simp add: world_cached_def)
  from geocodeLocation_fallback [of world0 "''Paris''" 1000 env_google_up 2000] m
    google_up_Paris [of world0] c0
  have a: "snd (geocodeLocation env_google_up world0 ''Paris'' 1000 2000) = GeocodeResult paris_by_google
     \<and> calls (fst (geocodeLocation env_google_up world0 ''Paris'' 1000 2000)) = [GoogleCall ''Paris'']"
    by simp
  from geocodeLocation_fallback [of world0 "''Paris''" 1000 env_google_down 2000] m
    google_down_Paris [of world0] nominatim_Paris [of world0] c0
  have b: "snd (geocodeLocation env_google_down world0 ''Paris'' 1000 2000) = GeocodeResult paris_by_nominatim
     \<and> calls (fst (geocodeLocation env_google_down world0 ''Paris'' 1000 2000))
        = [GoogleCall ''Paris'', NominatimCall ''Paris'']"
    by simp
  from geocodeLocation_fallback [of world_cached "''Paris''" 1000 env_google_up 2000] h c1
  have c: "snd (geocodeLocation env_google_up world_cached ''Paris'' 1000 2000) = GeocodeResult paris_by_nominatim
     \<and> calls (fst (geocodeLocation env_google_up world_cached ''Paris'' 1000 2000)) = []"
    by simp
  from a b c show ?thesis by simp
qed

text \<open>
  The claim as written leaves the cache out: with a live entry for the location text,
  \<open>geocodeLocation\<close> returns the cached coordinates, although Google yields other ones
  for that text.
\<close>

theorem geocodeLocation_cache_hit_counterexample:
  "snd (geocodeWithGoogle env_google_up world_cached ''Paris'') = Some paris_by_google
   \<and> snd (geocodeLocation env_google_up world_cached ''Paris'' 1000 2000) = GeocodeResult paris_by_nominatim
   \<and> GeocodeResult paris_by_nominatim \<noteq> GeocodeResult paris_by_google"
proof -
  have h: "truthy (snd (CacheService_get (db world_cached) (geocode_key ''Paris'') 1000))"
    and v: "snd (CacheService_get (db world_cached) (geocode_key ''Paris'') 1000)
             = GeocodeResult paris_by_nominatim"
    by (simp_all add: world_cached_def CacheService_get_def)
  have "snd (geocodeLocation env_google_up world_cached ''Paris'' 1000 2000)
          = GeocodeResult paris_by_nominatim"
    using geocodeLocation_hit [OF h, of env_google_up 2000] v by simp
  moreover have "GeocodeResult paris_by_nominatim \<noteq> GeocodeResult paris_by_google"
    by (simp add: paris_by_nominatim_def paris_by_google_def)
  ultimately show ?thesis using google_up_Paris [of world_cached] by simp
qed

lemma get_again_Null:
  "snd (CacheService_get sb k t) = Null \<Longrightarrow> snd (CacheService_get (fst (CacheService_get sb k t)) k t') = Null"
  by (auto simp: CacheService_get_def CacheService_delete_def split: db_fault.splits option.splits if_splits)

lemma get_table:
  "cache_table (fst (CacheService_get sb k t)) = cache_table sb
   \<or> cache_table (fst (CacheService_get sb k t)) = (cache_table sb)(k := None)"
  by (auto simp: CacheService_get_def CacheService_delete_def split: db_fault.splits option.splits)

text \<open>
  Claim C5. On a location text on which both providers fail, \<open>geocodeLocation\<close> stores
  nothing: the table is as before, or has lost the expired row of the key. When the
  resolution failed (the call returned \<open>null\<close>), a retry at any time finds no cached
  value for the key and invokes both providers again. Read from right to left, the first
  part says that a row is written only if a provider returned a result.
\<close>

theorem geocodeLocation_no_negative_caching:
  assumes g: "snd (geocodeWithGoogle e w n) = None"
    and m: "snd (geocodeWithNominatim e w n) = None"
  shows "(cache_table (db (fst (geocodeLocation e w n t_get t_set))) = cache_table (db w)
          \<or> cache_table (db (fst (geocodeLocation e w n t_get t_set)))
               = (cache_table (db w))(geocode_key n := None))
       \<and> (snd (geocodeLocation e w n t_get t_set) = Null \<longrightarrow>
            (\<forall>t_get' t_set'.
               snd (CacheService_get (db (fst (geocodeLocation e w n t_get t_set))) (geocode_key n) t_get')
                 = Null
             \<and> snd (geocodeLocation e (fst (geocodeLocation e w n t_get t_set)) n t_get' t_set') = Null
             \<and> calls (fst (geocodeLocation e (fst (geocodeLocation e w n t_get t_set)) n t_get' t_set'))
                 = calls (fst (geocodeLocation e w n t_get t_set)) @ [GoogleCall n, NominatimCall n]))"
proof (cases "truthy (snd (CacheService_get (db w) (geocode_key n) t_get))")
  case True
  then have "snd (geocodeLocation e w n t_get t_set) \<noteq> Null"
    by (auto simp: geocodeLocation_hit)
  moreover have "db (fst (geocodeLocation e w n t_get t_set))
                   = fst (CacheService_get (db w) (geocode_key n) t_get)"
    using True by (simp add: geocodeLocation_hit)
  ultimately show ?thesis
    using get_table [of "db w" "geocode_key n" t_get] by simp
next
  case False
  let ?sb1 = "fst (CacheService_get (db w) (geocode_key n) t_get)"
  let ?w' = "w\<lparr>db := ?sb1, calls := calls w @ [GoogleCall n, NominatimCall n]\<rparr>"
  have first: "geocodeLocation e w n t_get t_set = (?w', Null)"
    using geocodeLocation_failed [OF False g m] .
  from False have null: "snd (CacheService_get (db w) (geocode_key n) t_get) = Null"
    by (cases "snd (CacheService_get (db w) (geocode_key n) t_get)") simp_all
  have again: "snd (CacheService_get (db ?w') (geocode_key n) t') = Null" for t'
    using get_again_Null [OF null] by simp
  have g': "snd (geocodeWithGoogle e ?w' n) = None"
    using g geocodeWithGoogle_answer [of e ?w' n w] by simp
  have m': "snd (geocodeWithNominatim e ?w' n) = None"
    using m geocodeWithNominatim_answer [of e ?w' n w] by simp
  have retry: "snd (geocodeLocation e ?w' n t' t'') = Null
      \<and> calls (fst (geocodeLocation e ?w' n t' t'')) = calls ?w' @ [GoogleCall n, NominatimCall n]"
    for t' t''
  proof -
    have "\<not> truthy (snd (CacheService_get (db ?w') (geocode_key n) t'))"
      using again [of t'] by simp
    from geocodeLocation_failed [OF this g' m', of t''] show ?thesis by simp
  qed
  have tab: "cache_table (db ?w') = cache_table (db w)
      \<or> cache_table (db ?w') = (cache_table (db w))(geocode_key n := None)"
    using get_table [of "db w" "geocode_key n" t_get] by simp
  show ?thesis
    unfolding first fst_conv snd_conv
    using tab again retry by blast
qed

theorem geocodeLocation_no_negative_caching_witness:
  "snd (geocodeWithGoogle env_all_down world0 ''Paris'') = None
   \<and> snd (geocodeWithNominatim env_all_down world0 ''Paris'') = None
   \<and> snd (geocodeLocation env_all_down world0 ''Paris'' 1000 2000) = Null
   \<and> cache_table (db (fst (geocodeLocation env_all_down world0 ''Paris'' 1000 2000))) = Map.empty
   \<and> calls (fst (geocodeLocation env_all_down
               (fst (geocodeLocation env_all_down world0 ''Paris'' 1000 2000)) ''Paris'' 1001 2001))
       = [GoogleCall ''Paris'', NominatimCall ''Paris'', GoogleCall ''Paris'', NominatimCall ''Paris'']"
proof -
  note g = all_down_google [of world0] and m = all_down_nominatim [of world0]
  have miss: "\<not> truthy (snd (CacheService_get (db world0) (geocode_key ''Paris'') 1000))"
    by (simp add: world0_miss)
  have first: "geocodeLocation env_all_down world0 ''Paris'' 1000 2000
      = (world0\<lparr>db := fst (CacheService_get (db world0) (geocode_key ''Paris'') 1000),
                 calls := calls world0 @ [GoogleCall ''Paris'', NominatimCall ''Paris'']\<rparr>, Null)"
    using geocodeLocation_failed [OF miss g m] .
  then have r: "snd (geocodeLocation env_all_down world0 ''Paris'' 1000 2000) = Null" by simp
  have c1: "calls (fst (geocodeLocation env_all_down world0 ''Paris'' 1000 2000))
              = [GoogleCall ''Paris'', NominatimCall ''Paris'']"
    using first by (simp add: world0_def)
  have t0: "cache_table (db world0) = Map.empty" by (simp add: world0_def empty_db_def)
  note n = geocodeLocation_no_negative_caching [OF g m, of 1000 2000]
  from n t0 have tab: "cache_table (db (fst (geocodeLocation env_all_down world0 ''Paris'' 1000 2000)))
                         = Map.empty"
    by auto
  from n r c1 have again: "calls (fst (geocodeLocation env_all_down
               (fst (geocodeLocation env_all_down world0 ''Paris'' 1000 2000)) ''Paris'' 1001 2001))
       = [GoogleCall ''Paris'', NominatimCall ''Paris'', GoogleCall ''Paris'', NominatimCall ''Paris'']"
    by simp
  show ?thesis by (intro conjI g m r tab again)
qed

section \<open>Location extraction and the geocode endpoint\<close>

lemma extractLocation_hit:
  assumes "truthy (snd (CacheService_get (db w) (extract_key d) t1))"
  shows "extractLocation e w d t1 t2
           = (w\<lparr>db := fst (CacheService_get (db w) (extract_key d) t1)\<rparr>,
              snd (CacheService_get (db w) (extract_key d) t1))"
proof -
  obtain sb1 v where g: "CacheService_get (db w) (extract_key d) t1 = (sb1, v)"
    by (cases "CacheService_get (db w) (extract_key d) t1")
  with assms have "truthy v" by simp
  with g show ?thesis by (simp add: extractLocation_def Let_def)
qed

lemma extractLocation_threw:
  assumes "\<not> truthy (snd (CacheService_get (db w) (extract_key d) t1))"
    and "inference_api e d = Threw"
  shows "extractLocation e w d t1 t2
           = (w\<lparr>db := fst (CacheService_get (db w) (extract_key d) t1)\<rparr>,
              LocationResult extraction_failed)"
proof -
  obtain sb1 v where g: "CacheService_get (db w) (extract_key d) t1 = (sb1, v)"
    by (cases "CacheService_get (db w) (extract_key d) t1")
  with assms(1) have "\<not> truthy v" by simp
  with g assms(2) show ?thesis by (simp add: extractLocation_def Let_def)
qed

lemma extractLocation_response:
  assumes "\<not> truthy (snd (CacheService_get (db w) (extract_key d) t1))"
    and "inference_api e d = Response entities"
  shows "extractLocation e w d t1 t2
           = (w\<lparr>db := CacheService_set (tz e) (fst (CacheService_get (db w) (extract_key d) t1))
                         (extract_key d)
                         (LocationResult (if extract_locations entities = [] then ''Unknown''
                                          else extract_locations entities))
                         1 t2\<rparr>,
              LocationResult (if extract_locations entities = [] then ''Unknown''
                              else extract_locations entities))"
proof -
  obtain sb1 v where g: "CacheService_get (db w) (extract_key d) t1 = (sb1, v)"
    by (cases "CacheService_get (db w) (extract_key d) t1")
  with assms(1) have "\<not> truthy v" by simp
  with g assms(2) show ?thesis by (simp add: extractLocation_def Let_def)
qed

lemma extractLocation_calls: "calls (fst (extractLocation e w d t1 t2)) = calls w"
proof (cases "truthy (snd (CacheService_get (db w) (extract_key d) t1))")
  case True then show ?thesis by (simp add: extractLocation_hit)
next
  case False then show ?thesis
    by (cases "inference_api e d") (simp_all add: extractLocation_threw extractLocation_response)
qed

lemma post_geocode_by_description:
  assumes "\<not> present (location_name body)" and "description body = Some d" and "d \<noteq> []"
    and "snd (extractLocation e w d t1 t2) = LocationResult l"
  shows "post_geocode e w body t1 t2 t_get t_set t_done
           = geocode_resolved e (fst (extractLocation e w d t1 t2)) body (Some l) t_get t_set t_done"
proof -
  obtain w1 where x: "extractLocation e w d t1 t2 = (w1, LocationResult l)"
    using assms(4) by (cases "extractLocation e w d t1 t2") simp
  with assms(1-3) show ?thesis by (simp add: post_geocode_def)
qed

text \<open>
  Claim C8. A request without a location name whose description is extracted to the
  failure sentinel \<open>Location extraction failed\<close> is answered with 422 and the extracted
  text, and no geocoding provider has been invoked by then.
\<close>

theorem post_geocode_extraction_failed:
  assumes "\<not> present (location_name body)" and "description body = Some d" and "d \<noteq> []"
    and "snd (extractLocation e w d t1 t2) = LocationResult extraction_failed"
  shows "snd (post_geocode e w body t1 t2 t_get t_set t_done) = ExtractionFailed (Some extraction_failed)
       \<and> calls (fst (post_geocode e w body t1 t2 t_get t_set t_done)) = calls w"
  using post_geocode_by_description [OF assms, of t_get t_set t_done]
    extractLocation_calls [of e w d t1 t2]
  by (simp add: geocode_resolved_def extraction_failed_def)

theorem post_geocode_extraction_failed_witness:
  "\<not> present (location_name flood_report)
   \<and> description flood_report = Some ''Flooding reported this morning''
   \<and> snd (extractLocation env_all_down world0 ''Flooding reported this morning'' 1000 2000)
        = LocationResult ''Location extraction failed''
   \<and> snd (post_geocode env_all_down world0 flood_report 1000 2000 3000 4000 5000)
        = ExtractionFailed (Some ''Location extraction failed'')
   \<and> calls (fst (post_geocode env_all_down world0 flood_report 1000 2000 3000 4000 5000)) = []"
proof -
  have a: "\<not> present (location_name flood_report)" by (simp add: flood_report_def)
  have b: "description flood_report = Some ''Flooding reported this morning''"
    by (simp add: flood_report_def)
  have c: "''Flooding reported this morning'' \<noteq> []" by simp
  have m: "\<not> truthy (snd (CacheService_get (db world0) (extract_key ''Flooding reported this morning'') 1000))"
    by (simp add: world0_miss)
  have t: "inference_api env_all_down ''Flooding reported this morning'' = Threw"
    by (simp add: env_all_down_def env_google_down_def env_google_up_def)
  have x: "snd (extractLocation env_all_down world0 ''Flooding reported this morning'' 1000 2000)
             = LocationResult extraction_failed"
    using extractLocation_threw [OF m t, of 2000] by simp
  have c0: "calls world0 = []" by (simp add: world0_def)
  from post_geocode_extraction_failed [OF a b c x, of 3000 4000 5000] c0 x
  have "snd (extractLocation env_all_down world0 ''Flooding reported this morning'' 1000 2000)
        = LocationResult ''Location extraction failed''
   \<and> snd (post_geocode env_all_down world0 flood_report 1000 2000 3000 4000 5000)
        = ExtractionFailed (Some ''Location extraction failed'')
   \<and> calls (fst (post_geocode env_all_down world0 flood_report 1000 2000 3000 4000 5000)) = []"
    by (simp add: extraction_failed_def)
  with a b show ?thesis by simp
qed






section \<open>Event fan-out\<close>

lemma disaster_room_inj: "disaster_room d' = disaster_room d \<longleftrightarrow> d' = d"
  by (simp add: disaster_room_def)

lemma on_join_disaster_room:
  "on_join_disaster io c d
     = map (\<lambda>s. if socket_id s = c then s\<lparr>rooms := insert (disaster_room d) (rooms s)\<rparr> else s) io"
  by (simp add: on_join_disaster_def disaster_room_def)

lemma join_ids:
  "set (io_emit (map (\<lambda>s. if socket_id s = c then s\<lparr>rooms := insert r (rooms s)\<rparr> else s) io))
     = set (io_emit io)"
  by (induction io) (auto simp: io_emit_def)

lemma join_recipients:
  "c' \<in> set (io_to_emit (map (\<lambda>s. if socket_id s = c then s\<lparr>rooms := insert r (rooms s)\<rparr> else s) io) r')
     \<longleftrightarrow> c' \<in> set (io_to_emit io r') \<or> (c' = c \<and> r' = r \<and> c \<in> set (io_emit io))"
  by (induction io) (auto simp: io_to_emit_def io_emit_def)

lemma fans_step: "fans (io_step io ev) = membership_step (fans io) ev"
proof (cases ev)
  case (Connect c)
  then show ?thesis
    by (auto simp: fans_def io_emit_def io_to_emit_def on_connection_def)
next
  case (JoinDisaster c d)
  have ids: "set (io_emit (on_join_disaster io c d)) = set (io_emit io)"
    unfolding on_join_disaster_room by (rule join_ids)
  have rec: "c' \<in> set (io_to_emit (on_join_disaster io c d) (disaster_room d'))
         \<longleftrightarrow> c' \<in> set (io_to_emit io (disaster_room d'))
              \<or> (c' = c \<and> d' = d \<and> c \<in> set (io_emit io))" for c' d'
    unfolding on_join_disaster_room join_recipients disaster_room_inj ..
  show ?thesis
    unfolding JoinDisaster io_step.simps fans_def membership_step.simps ids
    by (auto simp: rec)
next
  case (Disconnect c)
  then show ?thesis
    by (auto simp: fans_def io_emit_def io_to_emit_def on_disconnect_def)
qed

lemma fans_run: "fans (foldl io_step io history) = foldl membership_step (fans io) history"
  by (induction history arbitrary: io) (simp_all add: fans_step)

lemma fans_empty: "fans [] = ({}, {})"
  by (simp add: fans_def io_emit_def io_to_emit_def)

text \<open>
  Claim C6. After any sequence of connections, joins and disconnects, the event that the
  social-media route emits for disaster \<open>X\<close> is delivered to exactly the connections that
  are subscribed to \<open>X\<close> in the membership relation, whatever else they are subscribed
  to, and a global event is delivered to exactly the connected connections.
\<close>

theorem fan_out_scoped:
  "(reports \<noteq> [] \<longrightarrow>
      set (emit_social_media_updated (io_run history) X reports)
        = {c. (c, X) \<in> subscriptions history})
   \<and> set (emit_disaster_updated (io_run history)) = connected history"
proof -
  have "fans (io_run history) = (connected history, subscriptions history)"
    by (simp add: io_run_def fans_run fans_empty connected_def subscriptions_def)
  then have "set (io_emit (io_run history)) = connected history"
    and "{(c, d). c \<in> set (io_to_emit (io_run history) (disaster_room d))} = subscriptions history"
    by (simp_all add: fans_def)
  then show ?thesis
    unfolding emit_social_media_updated_def emit_disaster_updated_def disaster_room_def [symmetric]
    by auto
qed

theorem fan_out_scoped_witness:
  "mockData 0 \<noteq> []
   \<and> subscriptions scenario_C = {(''s1'', ''D1''), (''s2'', ''D1''), (''s3'', ''D2'')}
   \<and> emit_social_media_updated (io_run scenario_C) ''D1'' (mockData 0) = [''s1'', ''s2'']
   \<and> ''s3'' \<notin> set (emit_social_media_updated (io_run scenario_C) ''D1'' (mockData 0))
   \<and> emit_disaster_updated (io_run scenario_C) = [''s1'', ''s2'', ''s3'']"
proof -
  have r: "mockData 0 \<noteq> []" by (simp add: mockData_def)
  have s: "subscriptions scenario_C = {(''s1'', ''D1''), (''s2'', ''D1''), (''s3'', ''D2'')}"
    by (simp add: subscriptions_def scenario_C_def insert_commute)
  have run: "io_run scenario_C
      = [\<lparr>socket_id = ''s1'', rooms = {''disaster_D1''}\<rparr>,
         \<lparr>socket_id = ''s2'', rooms = {''disaster_D1''}\<rparr>,
         \<lparr>socket_id = ''s3'', rooms = {''disaster_D2''}\<rparr>]"
    by (simp add: io_run_def scenario_C_def on_connection_def on_join_disaster_def)
  have e: "emit_social_media_updated (io_run scenario_C) ''D1'' (mockData 0) = [''s1'', ''s2'']"
    unfolding run using r by (simp add: emit_social_media_updated_def io_to_emit_def)
  have g: "emit_disaster_updated (io_run scenario_C) = [''s1'', ''s2'', ''s3'']"
    unfolding run by (simp add: emit_disaster_updated_def io_emit_def)
  have "(''s3'', ''D1'') \<notin> subscriptions scenario_C" unfolding s by simp
  with fan_out_scoped [of "mockData 0" scenario_C "''D1''"] r
  have n: "''s3'' \<notin> set (emit_social_media_updated (io_run scenario_C) ''D1'' (mockData 0))"
    by simp
  show ?thesis by (intro conjI r s e n g)
qed

end
